theory Spec2Isabelle
  imports Main "HOL-Library.Word"
begin

section \<open>The machine the formatted-output stubs run on\<close>

text \<open>
  The three functions of \<^verbatim>\<open>rust_printf.c\<close> take pointers, a \<^verbatim>\<open>size_t\<close> and
  an argument list, and return an \<^verbatim>\<open>int\<close>. On the targets of the kernel (LP64)
  a pointer and a \<^verbatim>\<open>size_t\<close> are 64 bits wide, an \<^verbatim>\<open>int\<close> is 32 bits wide
  and a \<^verbatim>\<open>char\<close> is one byte. The order on words is the unsigned one, as the
  comparison \<^verbatim>\<open>n > 0\<close> on a \<^verbatim>\<open>size_t\<close> is; \<open>sint\<close> reads the returned
  \<^verbatim>\<open>int\<close> as the signed value it is.
\<close>

type_synonym addr = "64 word"
type_synonym size_t = "64 word"
type_synonym c_int = "32 word"
type_synonym byte = "8 word"

text \<open>
  The variadic arguments (\<^verbatim>\<open>...\<close>) and a pre-packed \<^verbatim>\<open>va_list\<close> are a sequence
  of argument slots.
\<close>

type_synonym va_list = "64 word list"

definition NULL :: addr where
  "NULL = 0"

text \<open>
  Everything a call can do to the world is an event: a read of a byte of memory, a write of
  a byte of memory, or a byte sent to an output device. The machine state is the memory
  together with the trace of the events so far, so that "no write", "never dereferenced" and
  "no output" are statements about the trace.
\<close>

datatype event = Load addr | Store addr byte | Output byte

record machine =
  mem :: "addr \<Rightarrow> byte"
  trace :: "event list"

text \<open>The assignment \<^verbatim>\<open>*a = v\<close> through a \<^verbatim>\<open>char *\<close>.\<close>

definition store_byte :: "addr \<Rightarrow> byte \<Rightarrow> machine \<Rightarrow> machine" where
  "store_byte a v m = m\<lparr>mem := (mem m)(a := v), trace := trace m @ [Store a v]\<rparr>"

text \<open>The address of \<^verbatim>\<open>s[i]\<close> for a \<^verbatim>\<open>char *s\<close> (\<^verbatim>\<open>sizeof(char)\<close> is 1).\<close>

definition char_index :: "addr \<Rightarrow> size_t \<Rightarrow> addr" where
  "char_index s i = s + i"

text \<open>The events a call added to the trace, given the states before and after it.\<close>

definition new_events :: "machine \<Rightarrow> machine \<Rightarrow> event list" where
  "new_events m m' = drop (length (trace m)) (trace m')"

text \<open>
  The address an event touches, and whether a list of events faults when only the
  addresses for which \<open>mapped\<close> holds may be accessed.
\<close>

fun touched :: "event \<Rightarrow> addr option" where
  "touched (Load a) = Some a"
| "touched (Store a v) = Some a"
| "touched (Output b) = None"

fun faults :: "(addr \<Rightarrow> bool) \<Rightarrow> event list \<Rightarrow> bool" where
  "faults mapped [] = False"
| "faults mapped (e # es) =
     (case touched e of
        Some a \<Rightarrow> (if mapped a then faults mapped es else True)
      | None \<Rightarrow> faults mapped es)"


section \<open>The no-op formatter (\<^verbatim>\<open>rust_printf.c\<close>)\<close>

text \<open>
  \<^verbatim>\<open>int mbedtls_printf(const char *fmt, ...) { (void)fmt; return 0; }\<close>
\<close>

definition mbedtls_printf :: "addr \<Rightarrow> va_list \<Rightarrow> machine \<Rightarrow> c_int \<times> machine" where
  "mbedtls_printf fmt args m = (0, m)"

text \<open>
  \<^verbatim>\<open>int mbedtls_snprintf(char *s, size_t n, const char *fmt, ...) {
    (void)fmt;
    if (n > 0 && s) { s[0] = '\0'; }
    return 0;
}\<close>
\<close>

definition mbedtls_snprintf ::
  "addr \<Rightarrow> size_t \<Rightarrow> addr \<Rightarrow> va_list \<Rightarrow> machine \<Rightarrow> c_int \<times> machine" where
  "mbedtls_snprintf s n fmt args m =
     (let m' = (if 0 < n \<and> s \<noteq> NULL then store_byte (char_index s 0) 0 m else m)
      in (0, m'))"

text \<open>
  \<^verbatim>\<open>int mbedtls_vsnprintf(char *s, size_t n, const char *fmt, va_list ap) {
    (void)fmt;
    (void)ap;
    if (n > 0 && s) { s[0] = '\0'; }
    return 0;
}\<close>
\<close>

definition mbedtls_vsnprintf ::
  "addr \<Rightarrow> size_t \<Rightarrow> addr \<Rightarrow> va_list \<Rightarrow> machine \<Rightarrow> c_int \<times> machine" where
  "mbedtls_vsnprintf s n fmt ap m =
     (let m' = (if 0 < n \<and> s \<noteq> NULL then store_byte (char_index s 0) 0 m else m)
      in (0, m'))"

text \<open>Two calls in succession: the second one starts in the state the first one left.\<close>

definition then_call ::
  "(machine \<Rightarrow> c_int \<times> machine) \<Rightarrow> (machine \<Rightarrow> c_int \<times> machine) \<Rightarrow> machine \<Rightarrow> c_int \<times> machine" where
  "then_call f g m = g (snd (f m))"



section \<open>The declarations of the shim\<close>














section \<open>Basic facts\<close>

lemma new_events_same [simp]: "new_events m m = []"
  by (simp add: new_events_def)

lemma new_events_store_byte [simp]: "new_events m (store_byte a v m) = [Store a v]"
  by (simp add: new_events_def store_byte_def)

lemma mem_store_byte [simp]: "mem (store_byte a v m) = (mem m)(a := v)"
  by (simp add: store_byte_def)

lemma trace_store_byte [simp]: "trace (store_byte a v m) = trace m @ [Store a v]"
  by (simp add: store_byte_def)

lemma char_index_0 [simp]: "char_index s 0 = s"
  by (simp add: char_index_def)

lemma snprintf_writes:
  "0 < n \<Longrightarrow> s \<noteq> NULL \<Longrightarrow> mbedtls_snprintf s n fmt args m = (0, store_byte s 0 m)"
  by (simp add: mbedtls_snprintf_def)

lemma snprintf_skips:
  "n = 0 \<or> s = NULL \<Longrightarrow> mbedtls_snprintf s n fmt args m = (0, m)"
  by (auto simp add: mbedtls_snprintf_def)

lemma vsnprintf_writes:
  "0 < n \<Longrightarrow> s \<noteq> NULL \<Longrightarrow> mbedtls_vsnprintf s n fmt ap m = (0, store_byte s 0 m)"
  by (simp add: mbedtls_vsnprintf_def)

lemma vsnprintf_skips:
  "n = 0 \<or> s = NULL \<Longrightarrow> mbedtls_vsnprintf s n fmt ap m = (0, m)"
  by (auto simp add: mbedtls_vsnprintf_def)

lemma snprintf_unmapped_faults:
  "0 < n \<Longrightarrow> s \<noteq> NULL \<Longrightarrow> \<not> mapped s \<Longrightarrow>
   faults mapped (new_events m (snd (mbedtls_snprintf s n fmt args m)))"
  by (simp add: snprintf_writes)

lemma snprintf_commute:
  "mem (snd (then_call (mbedtls_snprintf s n fmt args) (mbedtls_snprintf s2 n2 fmt2 args2) m)) =
   mem (snd (then_call (mbedtls_snprintf s2 n2 fmt2 args2) (mbedtls_snprintf s n fmt args) m))"
  by (auto simp add: then_call_def mbedtls_snprintf_def fun_eq_iff)

lemma vsnprintf_commute:
  "mem (snd (then_call (mbedtls_vsnprintf s n fmt ap) (mbedtls_vsnprintf s2 n2 fmt2 ap2) m)) =
   mem (snd (then_call (mbedtls_vsnprintf s2 n2 fmt2 ap2) (mbedtls_vsnprintf s n fmt ap) m))"
  by (auto simp add: then_call_def mbedtls_vsnprintf_def fun_eq_iff)




section \<open>The write contract of the buffer-taking stubs\<close>

text \<open>
  C1. For every buffer pointer \<open>s\<close> and capacity \<open>n\<close>: when \<open>n\<close> is greater than zero
  and \<open>s\<close> is not null, \<open>mbedtls_snprintf\<close> performs exactly one memory access, the
  store of a null byte at offset zero of the buffer; afterwards that byte is zero and every
  other byte of memory is what it was. In every other case (\<open>n\<close> zero or \<open>s\<close> null) the
  machine is left as it was found: nothing is written.
\<close>

theorem mbedtls_snprintf_write_contract:
  "(0 < n \<and> s \<noteq> NULL \<longrightarrow>
      new_events m (snd (mbedtls_snprintf s n fmt args m)) = [Store (char_index s 0) 0] \<and>
      trace (snd (mbedtls_snprintf s n fmt args m)) = trace m @ [Store s 0] \<and>
      mem (snd (mbedtls_snprintf s n fmt args m)) s = 0 \<and>
      (\<forall>a. a \<noteq> s \<longrightarrow> mem (snd (mbedtls_snprintf s n fmt args m)) a = mem m a)) \<and>
   (n = 0 \<or> s = NULL \<longrightarrow> snd (mbedtls_snprintf s n fmt args m) = m)"
proof (intro conjI impI)
  assume w: "0 < n \<and> s \<noteq> NULL"
  then have eq: "mbedtls_snprintf s n fmt args m = (0, store_byte s 0 m)"
    by (simp add: snprintf_writes)
  show "new_events m (snd (mbedtls_snprintf s n fmt args m)) = [Store (char_index s 0) 0]"
    by (simp add: eq)
  show "trace (snd (mbedtls_snprintf s n fmt args m)) = trace m @ [Store s 0]"
    by (simp add: eq)
  show "mem (snd (mbedtls_snprintf s n fmt args m)) s = 0"
    by (simp add: eq)
  show "\<forall>a. a \<noteq> s \<longrightarrow> mem (snd (mbedtls_snprintf s n fmt args m)) a = mem m a"
    by (simp add: eq)
next
  assume "n = 0 \<or> s = NULL"
  then show "snd (mbedtls_snprintf s n fmt args m) = m"
    by (simp add: snprintf_skips)
qed

theorem mbedtls_snprintf_write_contract_witness:
  "(0::size_t) < 10 \<and> (0x1000::addr) \<noteq> NULL \<and>
   new_events \<lparr>mem = (\<lambda>a. 0x41), trace = []\<rparr>
     (snd (mbedtls_snprintf 0x1000 10 0x2000 [42] \<lparr>mem = (\<lambda>a. 0x41), trace = []\<rparr>))
     = [Store 0x1000 0] \<and>
   mem (snd (mbedtls_snprintf 0x1000 10 0x2000 [42] \<lparr>mem = (\<lambda>a. 0x41), trace = []\<rparr>)) 0x1000 = 0 \<and>
   mem (snd (mbedtls_snprintf 0x1000 10 0x2000 [42] \<lparr>mem = (\<lambda>a. 0x41), trace = []\<rparr>)) 0x1001 = 0x41 \<and>
   snd (mbedtls_snprintf 0x1000 0 0x2000 [42] \<lparr>mem = (\<lambda>a. 0x41), trace = []\<rparr>)
     = \<lparr>mem = (\<lambda>a. 0x41), trace = []\<rparr> \<and>
   snd (mbedtls_snprintf NULL 10 0x2000 [42] \<lparr>mem = (\<lambda>a. 0x41), trace = []\<rparr>)
     = \<lparr>mem = (\<lambda>a. 0x41), trace = []\<rparr>"
  using mbedtls_snprintf_write_contract
          [of 10 "0x1000" "\<lparr>mem = (\<lambda>a. 0x41), trace = []\<rparr>" "0x2000" "[42]"]
        mbedtls_snprintf_write_contract
          [of 0 "0x1000" "\<lparr>mem = (\<lambda>a. 0x41), trace = []\<rparr>" "0x2000" "[42]"]
        mbedtls_snprintf_write_contract
          [of 10 NULL "\<lparr>mem = (\<lambda>a. 0x41), trace = []\<rparr>" "0x2000" "[42]"]
  by (simp add: NULL_def)

text \<open>
  C2. For every buffer pointer, capacity, format pointer and argument list,
  \<open>mbedtls_vsnprintf\<close> returns the same value and leaves the same machine state as
  \<open>mbedtls_snprintf\<close> called with the same \<open>s\<close>, \<open>n\<close> and \<open>fmt\<close>, whatever the
  arguments of either are; and its outcome does not change with the argument list \<open>ap\<close>.
\<close>

theorem mbedtls_vsnprintf_same_as_snprintf:
  "mbedtls_vsnprintf s n fmt ap m = mbedtls_snprintf s n fmt args m \<and>
   mbedtls_vsnprintf s n fmt ap m = mbedtls_vsnprintf s n fmt ap' m"
  by (simp add: mbedtls_vsnprintf_def mbedtls_snprintf_def)

text \<open>
  C3. Each of the three stubs returns zero, which read as a signed \<^verbatim>\<open>int\<close> is the
  non-negative value 0, for every format pointer, argument list, capacity, buffer pointer
  (null included) and machine state.
\<close>

theorem stubs_return_zero:
  "fst (mbedtls_printf fmt args m) = 0 \<and>
   fst (mbedtls_snprintf s n fmt args m) = 0 \<and>
   fst (mbedtls_vsnprintf s n fmt ap m) = 0 \<and>
   sint (fst (mbedtls_printf fmt args m)) = 0 \<and>
   sint (fst (mbedtls_snprintf s n fmt args m)) = 0 \<and>
   sint (fst (mbedtls_vsnprintf s n fmt ap m)) = 0"
  by (simp add: mbedtls_printf_def mbedtls_snprintf_def mbedtls_vsnprintf_def)

text \<open>
  C4. With capacity zero, \<open>mbedtls_snprintf\<close> and \<open>mbedtls_vsnprintf\<close> leave the machine
  as they found it for every buffer pointer: the trace gains no event, so the pointer is
  neither written nor read through, and the call does not fault even when no address at
  all is mapped (a dangling or one-past-the-end pointer).
\<close>

theorem zero_capacity_never_dereferences:
  "mbedtls_snprintf s 0 fmt args m = (0, m) \<and>
   mbedtls_vsnprintf s 0 fmt ap m = (0, m) \<and>
   new_events m (snd (mbedtls_snprintf s 0 fmt args m)) = [] \<and>
   new_events m (snd (mbedtls_vsnprintf s 0 fmt ap m)) = [] \<and>
   \<not> faults mapped (new_events m (snd (mbedtls_snprintf s 0 fmt args m))) \<and>
   \<not> faults mapped (new_events m (snd (mbedtls_vsnprintf s 0 fmt ap m)))"
  by (simp add: snprintf_skips vsnprintf_skips)

text \<open>
  C5. With a null buffer pointer, \<open>mbedtls_snprintf\<close> and \<open>mbedtls_vsnprintf\<close> leave the
  machine as they found it for every capacity: the trace gains no event, so nothing is
  written, and the call does not fault whichever addresses are mapped (the null address
  need not be).
\<close>

theorem null_buffer_never_written:
  "mbedtls_snprintf NULL n fmt args m = (0, m) \<and>
   mbedtls_vsnprintf NULL n fmt ap m = (0, m) \<and>
   new_events m (snd (mbedtls_snprintf NULL n fmt args m)) = [] \<and>
   new_events m (snd (mbedtls_vsnprintf NULL n fmt ap m)) = [] \<and>
   \<not> faults mapped (new_events m (snd (mbedtls_snprintf NULL n fmt args m))) \<and>
   \<not> faults mapped (new_events m (snd (mbedtls_vsnprintf NULL n fmt ap m)))"
  by (simp add: snprintf_skips vsnprintf_skips)


section \<open>The buffer-less stub\<close>

text \<open>
  C6. For every format pointer (null or not) and every argument list,
  \<open>mbedtls_printf\<close> returns zero and leaves the machine as it found it: the memory is the
  same and the trace gained no event, so nothing was written and nothing was output.
\<close>

theorem mbedtls_printf_inert:
  "mbedtls_printf fmt args m = (0, m) \<and>
   new_events m (snd (mbedtls_printf fmt args m)) = [] \<and>
   sint (fst (mbedtls_printf fmt args m)) = 0"
  by (simp add: mbedtls_printf_def)


section \<open>What the stubs depend on\<close>

text \<open>
  C7. No stub inspects the format string or the arguments. Two calls to the same stub with
  the same buffer pointer and capacity, started in the same machine state, give the same
  return value and the same final state whatever their format pointers and argument lists
  are. The same holds when the bytes of memory differ too (the contents of the format
  strings, say): if the two starting memories agree on a set \<open>B\<close> of addresses (the
  buffer), the return values are equal, the two calls perform the same memory accesses, none
  of them a read, and the final memories agree on \<open>B\<close>.
\<close>

theorem stubs_ignore_format_and_arguments:
  "mbedtls_printf fmt1 args1 m = mbedtls_printf fmt2 args2 m \<and>
   mbedtls_snprintf s n fmt1 args1 m = mbedtls_snprintf s n fmt2 args2 m \<and>
   mbedtls_vsnprintf s n fmt1 args1 m = mbedtls_vsnprintf s n fmt2 args2 m \<and>
   ((\<forall>a\<in>B. mem m1 a = mem m2 a) \<longrightarrow>
      fst (mbedtls_printf fmt1 args1 m1) = fst (mbedtls_printf fmt2 args2 m2) \<and>
      fst (mbedtls_snprintf s n fmt1 args1 m1) = fst (mbedtls_snprintf s n fmt2 args2 m2) \<and>
      fst (mbedtls_vsnprintf s n fmt1 args1 m1) = fst (mbedtls_vsnprintf s n fmt2 args2 m2) \<and>
      new_events m1 (snd (mbedtls_printf fmt1 args1 m1)) =
        new_events m2 (snd (mbedtls_printf fmt2 args2 m2)) \<and>
      new_events m1 (snd (mbedtls_snprintf s n fmt1 args1 m1)) =
        new_events m2 (snd (mbedtls_snprintf s n fmt2 args2 m2)) \<and>
      new_events m1 (snd (mbedtls_vsnprintf s n fmt1 args1 m1)) =
        new_events m2 (snd (mbedtls_vsnprintf s n fmt2 args2 m2)) \<and>
      (\<forall>a. Load a \<notin> set (new_events m1 (snd (mbedtls_printf fmt1 args1 m1))) \<and>
           Load a \<notin> set (new_events m1 (snd (mbedtls_snprintf s n fmt1 args1 m1))) \<and>
           Load a \<notin> set (new_events m1 (snd (mbedtls_vsnprintf s n fmt1 args1 m1)))) \<and>
      (\<forall>a\<in>B. mem (snd (mbedtls_printf fmt1 args1 m1)) a =
                mem (snd (mbedtls_printf fmt2 args2 m2)) a) \<and>
      (\<forall>a\<in>B. mem (snd (mbedtls_snprintf s n fmt1 args1 m1)) a =
                mem (snd (mbedtls_snprintf s n fmt2 args2 m2)) a) \<and>
      (\<forall>a\<in>B. mem (snd (mbedtls_vsnprintf s n fmt1 args1 m1)) a =
                mem (snd (mbedtls_vsnprintf s n fmt2 args2 m2)) a))"
proof -
  have same_state:
    "mbedtls_printf fmt1 args1 m = mbedtls_printf fmt2 args2 m"
    "mbedtls_snprintf s n fmt1 args1 m = mbedtls_snprintf s n fmt2 args2 m"
    "mbedtls_vsnprintf s n fmt1 args1 m = mbedtls_vsnprintf s n fmt2 args2 m"
    by (simp_all add: mbedtls_printf_def mbedtls_snprintf_def mbedtls_vsnprintf_def)
  have p: "mbedtls_printf f xs k = (0, k)" for f xs k
    by (simp add: mbedtls_printf_def)
  show ?thesis
  proof (cases "0 < n \<and> s \<noteq> NULL")
    case True
    then have sn: "mbedtls_snprintf s n f xs k = (0, store_byte s 0 k)"
      and vsn: "mbedtls_vsnprintf s n f xs k = (0, store_byte s 0 k)" for f xs k
      by (simp_all add: snprintf_writes vsnprintf_writes)
    show ?thesis
      unfolding sn vsn p by simp
  next
    case False
    then have sn: "mbedtls_snprintf s n f xs k = (0, k)"
      and vsn: "mbedtls_vsnprintf s n f xs k = (0, k)" for f xs k
      by (auto simp add: mbedtls_snprintf_def mbedtls_vsnprintf_def)
    show ?thesis
      unfolding sn vsn p by simp
  qed
qed

theorem stubs_ignore_format_and_arguments_witness:
  "mem \<lparr>mem = (\<lambda>a. 0x41), trace = []\<rparr> 0x1000 =
     mem \<lparr>mem = (\<lambda>a. 0x41)(0x2000 := 0x25, 0x3000 := 0x73), trace = [Store 0x3000 0x73]\<rparr> 0x1000 \<and>
   mem \<lparr>mem = (\<lambda>a. 0x41), trace = []\<rparr> 0x1001 =
     mem \<lparr>mem = (\<lambda>a. 0x41)(0x2000 := 0x25, 0x3000 := 0x73), trace = [Store 0x3000 0x73]\<rparr> 0x1001 \<and>
   mem \<lparr>mem = (\<lambda>a. 0x41), trace = []\<rparr> 0x2000 \<noteq>
     mem \<lparr>mem = (\<lambda>a. 0x41)(0x2000 := 0x25, 0x3000 := 0x73), trace = [Store 0x3000 0x73]\<rparr> 0x2000 \<and>
   fst (mbedtls_snprintf 0x1000 10 0x2000 [42] \<lparr>mem = (\<lambda>a. 0x41), trace = []\<rparr>) =
   fst (mbedtls_snprintf 0x1000 10 0x3000 [7, 8]
          \<lparr>mem = (\<lambda>a. 0x41)(0x2000 := 0x25, 0x3000 := 0x73), trace = [Store 0x3000 0x73]\<rparr>) \<and>
   mem (snd (mbedtls_snprintf 0x1000 10 0x2000 [42] \<lparr>mem = (\<lambda>a. 0x41), trace = []\<rparr>)) 0x1000 =
   mem (snd (mbedtls_snprintf 0x1000 10 0x3000 [7, 8]
          \<lparr>mem = (\<lambda>a. 0x41)(0x2000 := 0x25, 0x3000 := 0x73), trace = [Store 0x3000 0x73]\<rparr>)) 0x1000 \<and>
   mem (snd (mbedtls_vsnprintf 0x1000 10 0x2000 [42] \<lparr>mem = (\<lambda>a. 0x41), trace = []\<rparr>)) 0x1001 =
   mem (snd (mbedtls_vsnprintf 0x1000 10 0x3000 [7, 8]
          \<lparr>mem = (\<lambda>a. 0x41)(0x2000 := 0x25, 0x3000 := 0x73), trace = [Store 0x3000 0x73]\<rparr>)) 0x1001"
  using stubs_ignore_format_and_arguments
          [of "0x2000" "[42]"
              "\<lparr>mem = (\<lambda>a. 0x41)(0x2000 := 0x25, 0x3000 := 0x73), trace = [Store 0x3000 0x73]\<rparr>"
              "0x3000" "[7, 8]" "0x1000" 10 "{0x1000, 0x1001}"
              "\<lparr>mem = (\<lambda>a. 0x41), trace = []\<rparr>"
              "\<lparr>mem = (\<lambda>a. 0x41)(0x2000 := 0x25, 0x3000 := 0x73), trace = [Store 0x3000 0x73]\<rparr>"]
  by simp

text \<open>
  C8. Each stub is a function of its arguments alone. Started in any two machine states
  (whatever other calls left behind), a call with the same arguments returns the same value
  and performs the same memory accesses; every access it performs is the store of a null
  byte to its own buffer pointer \<open>s\<close>, so it reads nothing, outputs nothing, and every byte
  of memory other than \<open>s\<close> keeps its value; \<open>mbedtls_printf\<close> changes nothing at all. If
  the byte at \<open>s\<close> is the same in both starting states, it is the same in both final ones.
  Two calls leave the same memory in whichever order they run.
\<close>

theorem stubs_self_contained:
  "fst (mbedtls_printf fmt args m1) = fst (mbedtls_printf fmt args m2) \<and>
   fst (mbedtls_snprintf s n fmt args m1) = fst (mbedtls_snprintf s n fmt args m2) \<and>
   fst (mbedtls_vsnprintf s n fmt ap m1) = fst (mbedtls_vsnprintf s n fmt ap m2) \<and>
   snd (mbedtls_printf fmt args m1) = m1 \<and>
   new_events m1 (snd (mbedtls_snprintf s n fmt args m1)) =
     new_events m2 (snd (mbedtls_snprintf s n fmt args m2)) \<and>
   new_events m1 (snd (mbedtls_vsnprintf s n fmt ap m1)) =
     new_events m2 (snd (mbedtls_vsnprintf s n fmt ap m2)) \<and>
   (\<forall>e\<in>set (new_events m1 (snd (mbedtls_snprintf s n fmt args m1))). e = Store s 0) \<and>
   (\<forall>e\<in>set (new_events m1 (snd (mbedtls_vsnprintf s n fmt ap m1))). e = Store s 0) \<and>
   (\<forall>a. a \<noteq> s \<longrightarrow> mem (snd (mbedtls_snprintf s n fmt args m1)) a = mem m1 a) \<and>
   (\<forall>a. a \<noteq> s \<longrightarrow> mem (snd (mbedtls_vsnprintf s n fmt ap m1)) a = mem m1 a) \<and>
   (mem m1 s = mem m2 s \<longrightarrow>
      mem (snd (mbedtls_snprintf s n fmt args m1)) s =
        mem (snd (mbedtls_snprintf s n fmt args m2)) s \<and>
      mem (snd (mbedtls_vsnprintf s n fmt ap m1)) s =
        mem (snd (mbedtls_vsnprintf s n fmt ap m2)) s) \<and>
   mem (snd (then_call (mbedtls_snprintf s n fmt args)
               (mbedtls_snprintf s2 n2 fmt2 args2) m1)) =
     mem (snd (then_call (mbedtls_snprintf s2 n2 fmt2 args2)
                 (mbedtls_snprintf s n fmt args) m1)) \<and>
   mem (snd (then_call (mbedtls_vsnprintf s n fmt ap)
               (mbedtls_vsnprintf s2 n2 fmt2 ap2) m1)) =
     mem (snd (then_call (mbedtls_vsnprintf s2 n2 fmt2 ap2)
                 (mbedtls_vsnprintf s n fmt ap) m1))"
proof -
  have p: "mbedtls_printf f xs k = (0, k)" for f xs k
    by (simp add: mbedtls_printf_def)
  show ?thesis
  proof (cases "0 < n \<and> s \<noteq> NULL")
    case True
    then have sn: "mbedtls_snprintf s n f xs k = (0, store_byte s 0 k)"
      and vsn: "mbedtls_vsnprintf s n f xs k = (0, store_byte s 0 k)" for f xs k
      by (simp_all add: snprintf_writes vsnprintf_writes)
    show ?thesis
      using snprintf_commute [of s n fmt args s2 n2 fmt2 args2 m1]
            vsnprintf_commute [of s n fmt ap s2 n2 fmt2 ap2 m1]
      by (simp add: sn vsn p)
  next
    case False
    then have sn: "mbedtls_snprintf s n f xs k = (0, k)"
      and vsn: "mbedtls_vsnprintf s n f xs k = (0, k)" for f xs k
      by (auto simp add: mbedtls_snprintf_def mbedtls_vsnprintf_def)
    show ?thesis
      using snprintf_commute [of s n fmt args s2 n2 fmt2 args2 m1]
            vsnprintf_commute [of s n fmt ap s2 n2 fmt2 ap2 m1]
      by (simp add: sn vsn p)
  qed
qed

theorem stubs_self_contained_witness:
  "Store 0x1000 0 \<in> set (new_events \<lparr>mem = (\<lambda>a. 0x41), trace = [Store 0x3000 0x41]\<rparr>
       (snd (mbedtls_snprintf 0x1000 10 0x2000 [42]
          \<lparr>mem = (\<lambda>a. 0x41), trace = [Store 0x3000 0x41]\<rparr>))) \<and>
   Load 0x2000 \<notin> set (new_events \<lparr>mem = (\<lambda>a. 0x41), trace = [Store 0x3000 0x41]\<rparr>
       (snd (mbedtls_snprintf 0x1000 10 0x2000 [42]
          \<lparr>mem = (\<lambda>a. 0x41), trace = [Store 0x3000 0x41]\<rparr>))) \<and>
   (0x1001 :: addr) \<noteq> 0x1000 \<and>
   mem (snd (mbedtls_snprintf 0x1000 10 0x2000 [42]
          \<lparr>mem = (\<lambda>a. 0x41), trace = [Store 0x3000 0x41]\<rparr>)) 0x1001 = 0x41 \<and>
   mem \<lparr>mem = (\<lambda>a. 0x41), trace = [Store 0x3000 0x41]\<rparr> 0x1000 =
     mem \<lparr>mem = (\<lambda>a. 0x41)(0x3000 := 0), trace = []\<rparr> 0x1000 \<and>
   mem (snd (mbedtls_snprintf 0x1000 10 0x2000 [42]
          \<lparr>mem = (\<lambda>a. 0x41), trace = [Store 0x3000 0x41]\<rparr>)) 0x1000 =
     mem (snd (mbedtls_snprintf 0x1000 10 0x2000 [42]
          \<lparr>mem = (\<lambda>a. 0x41)(0x3000 := 0), trace = []\<rparr>)) 0x1000 \<and>
   new_events \<lparr>mem = (\<lambda>a. 0x41), trace = [Store 0x3000 0x41]\<rparr>
       (snd (mbedtls_snprintf 0x1000 10 0x2000 [42]
          \<lparr>mem = (\<lambda>a. 0x41), trace = [Store 0x3000 0x41]\<rparr>)) =
     new_events \<lparr>mem = (\<lambda>a. 0x41)(0x3000 := 0), trace = []\<rparr>
       (snd (mbedtls_snprintf 0x1000 10 0x2000 [42]
          \<lparr>mem = (\<lambda>a. 0x41)(0x3000 := 0), trace = []\<rparr>))"
  using stubs_self_contained
          [of "0x2000" "[42]" "\<lparr>mem = (\<lambda>a. 0x41), trace = [Store 0x3000 0x41]\<rparr>"
              "\<lparr>mem = (\<lambda>a. 0x41)(0x3000 := 0), trace = []\<rparr>" "0x1000" 10 "[42]"
              "0x1008" 4 "0x2000" "[]" "[]"]
  by (simp add: snprintf_writes NULL_def)

text \<open>
  C10. The buffer-taking stubs are idempotent on memory: for every buffer pointer \<open>s\<close> and
  capacity \<open>n\<close>, a call followed by a second call with the same \<open>s\<close> and \<open>n\<close> leaves
  the memory that the first call alone leaves, and the second call returns what the first
  returned. (The trace of the two calls holds the store twice when there is one.)
\<close>

theorem buffer_stubs_idempotent:
  "mem (snd (then_call (mbedtls_snprintf s n fmt1 args1) (mbedtls_snprintf s n fmt2 args2) m)) =
     mem (snd (mbedtls_snprintf s n fmt1 args1 m)) \<and>
   fst (then_call (mbedtls_snprintf s n fmt1 args1) (mbedtls_snprintf s n fmt2 args2) m) =
     fst (mbedtls_snprintf s n fmt1 args1 m) \<and>
   mem (snd (then_call (mbedtls_vsnprintf s n fmt1 ap1) (mbedtls_vsnprintf s n fmt2 ap2) m)) =
     mem (snd (mbedtls_vsnprintf s n fmt1 ap1 m)) \<and>
   fst (then_call (mbedtls_vsnprintf s n fmt1 ap1) (mbedtls_vsnprintf s n fmt2 ap2) m) =
     fst (mbedtls_vsnprintf s n fmt1 ap1 m)"
proof (cases "0 < n \<and> s \<noteq> NULL")
  case True
  then have sn: "mbedtls_snprintf s n f xs k = (0, store_byte s 0 k)"
    and vsn: "mbedtls_vsnprintf s n f xs k = (0, store_byte s 0 k)" for f xs k
    by (simp_all add: snprintf_writes vsnprintf_writes)
  show ?thesis
    unfolding then_call_def sn vsn by simp
next
  case False
  then have sn: "mbedtls_snprintf s n f xs k = (0, k)"
    and vsn: "mbedtls_vsnprintf s n f xs k = (0, k)" for f xs k
    by (auto simp add: mbedtls_snprintf_def mbedtls_vsnprintf_def)
  show ?thesis
    unfolding then_call_def sn vsn by simp
qed


section \<open>The declarations against the binding contract\<close>



end
